theory Spec2Isabelle
  imports Complex_Main
begin

section \<open>GLSL floating-point values\<close>

text \<open>
  The shader of \<^verbatim>\<open>viz_sdf_cylinder.py\<close> computes on GLSL \<^verbatim>\<open>float\<close>s. A float is
  modelled as an IEEE 754 value: a finite number, one of the two infinities, or NaN.
  The special values follow IEEE 754: \<open>0/0\<close>, \<open>\<infinity> - \<infinity>\<close>, \<open>0 * \<infinity>\<close> and the square root of a
  negative number are NaN, a nonzero number divided by zero is an infinity, NaN
  propagates through arithmetic and every comparison with NaN is false. A result of an
  operation on floats whose magnitude reaches \<open>2^128 - 2^103\<close> (the binary32 value that
  rounds to infinity) overflows to an infinity. Within the range a finite result is the
  real number itself: rounding is not modelled, and there is one zero. What is proved
  below is therefore stated so that it does not rest on the absence of rounding.
\<close>

datatype glfloat = Fin real | PInf | NInf | NaN

definition flt_limit :: real where
  "flt_limit = 2 ^ 128 - 2 ^ 103"

definition in_range :: "real \<Rightarrow> bool" where
  "in_range x = (\<bar>x\<bar> < flt_limit)"

text \<open>
  The result of an operation on the finite operands \<open>a\<close> and \<open>b\<close> whose real value is
  \<open>r\<close>. A number beyond the range is not a float and no operation on floats yields
  one; on such an operand the operations are left exact.
\<close>

definition fin_result :: "real \<Rightarrow> real \<Rightarrow> real \<Rightarrow> glfloat" where
  "fin_result a b r =
     (if in_range a \<and> in_range b \<and> \<not> in_range r then (if 0 < r then PInf else NInf)
      else Fin r)"

instantiation glfloat :: "{zero, one, plus, uminus, minus, times, inverse, ord}"
begin

definition zero_glfloat :: glfloat where
  "zero_glfloat = Fin 0"

definition one_glfloat :: glfloat where
  "one_glfloat = Fin 1"

fun plus_glfloat :: "glfloat \<Rightarrow> glfloat \<Rightarrow> glfloat" where
  "plus_glfloat (Fin a) (Fin b) = fin_result a b (a + b)"
| "plus_glfloat NaN _ = NaN"
| "plus_glfloat _ NaN = NaN"
| "plus_glfloat PInf NInf = NaN"
| "plus_glfloat NInf PInf = NaN"
| "plus_glfloat PInf _ = PInf"
| "plus_glfloat _ PInf = PInf"
| "plus_glfloat NInf _ = NInf"
| "plus_glfloat _ NInf = NInf"

fun uminus_glfloat :: "glfloat \<Rightarrow> glfloat" where
  "uminus_glfloat (Fin a) = Fin (- a)"
| "uminus_glfloat PInf = NInf"
| "uminus_glfloat NInf = PInf"
| "uminus_glfloat NaN = NaN"

definition minus_glfloat :: "glfloat \<Rightarrow> glfloat \<Rightarrow> glfloat" where
  "minus_glfloat x y = x + (- y)"

fun times_glfloat :: "glfloat \<Rightarrow> glfloat \<Rightarrow> glfloat" where
  "times_glfloat (Fin a) (Fin b) = fin_result a b (a * b)"
| "times_glfloat NaN _ = NaN"
| "times_glfloat _ NaN = NaN"
| "times_glfloat PInf (Fin b) = (if b = 0 then NaN else if 0 < b then PInf else NInf)"
| "times_glfloat NInf (Fin b) = (if b = 0 then NaN else if 0 < b then NInf else PInf)"
| "times_glfloat (Fin a) PInf = (if a = 0 then NaN else if 0 < a then PInf else NInf)"
| "times_glfloat (Fin a) NInf = (if a = 0 then NaN else if 0 < a then NInf else PInf)"
| "times_glfloat PInf PInf = PInf"
| "times_glfloat PInf NInf = NInf"
| "times_glfloat NInf PInf = NInf"
| "times_glfloat NInf NInf = PInf"

fun divide_glfloat :: "glfloat \<Rightarrow> glfloat \<Rightarrow> glfloat" where
  "divide_glfloat (Fin a) (Fin b) =
     (if b \<noteq> 0 then fin_result a b (a / b)
      else if a = 0 then NaN else if 0 < a then PInf else NInf)"
| "divide_glfloat NaN _ = NaN"
| "divide_glfloat _ NaN = NaN"
| "divide_glfloat (Fin a) PInf = Fin 0"
| "divide_glfloat (Fin a) NInf = Fin 0"
| "divide_glfloat PInf (Fin b) = (if 0 \<le> b then PInf else NInf)"
| "divide_glfloat NInf (Fin b) = (if 0 \<le> b then NInf else PInf)"
| "divide_glfloat PInf PInf = NaN"
| "divide_glfloat PInf NInf = NaN"
| "divide_glfloat NInf PInf = NaN"
| "divide_glfloat NInf NInf = NaN"

definition inverse_glfloat :: "glfloat \<Rightarrow> glfloat" where
  "inverse_glfloat x = divide (Fin 1) x"

fun less_glfloat :: "glfloat \<Rightarrow> glfloat \<Rightarrow> bool" where
  "less_glfloat (Fin a) (Fin b) = (a < b)"
| "less_glfloat NaN _ = False"
| "less_glfloat _ NaN = False"
| "less_glfloat NInf NInf = False"
| "less_glfloat NInf _ = True"
| "less_glfloat _ NInf = False"
| "less_glfloat PInf _ = False"
| "less_glfloat _ PInf = True"

definition less_eq_glfloat :: "glfloat \<Rightarrow> glfloat \<Rightarrow> bool" where
  "less_eq_glfloat x y = (x < y \<or> (x = y \<and> x \<noteq> NaN))"

instance ..

end

text \<open>The GLSL built-in functions on scalars, as the GLSL specification defines them.\<close>

definition isnan :: "glfloat \<Rightarrow> bool" where
  "isnan x = (x = NaN)"

fun sqrt_f :: "glfloat \<Rightarrow> glfloat" where
  "sqrt_f (Fin a) = (if a < 0 then NaN else Fin (sqrt a))"
| "sqrt_f PInf = PInf"
| "sqrt_f NInf = NaN"
| "sqrt_f NaN = NaN"

definition abs_f :: "glfloat \<Rightarrow> glfloat" where
  "abs_f x = (if Fin 0 \<le> x then x else - x)"

definition min_f :: "glfloat \<Rightarrow> glfloat \<Rightarrow> glfloat" where
  "min_f x y = (if y < x then y else x)"

definition max_f :: "glfloat \<Rightarrow> glfloat \<Rightarrow> glfloat" where
  "max_f x y = (if x < y then y else x)"

definition clamp :: "glfloat \<Rightarrow> glfloat \<Rightarrow> glfloat \<Rightarrow> glfloat" where
  "clamp x minVal maxVal = min_f (max_f x minVal) maxVal"

text \<open>
  \<^verbatim>\<open>pow(x, y)\<close>: in GLSL the result is undefined if \<open>x < 0\<close>, and if \<open>x = 0\<close> and
  \<open>y \<le> 0\<close>. An undefined result is modelled as NaN, which is what the usual evaluation
  of \<^verbatim>\<open>pow(x, y)\<close> as \<^verbatim>\<open>exp2(y * log2(x))\<close> returns for a negative \<open>x\<close>.
\<close>

fun pow_f :: "glfloat \<Rightarrow> glfloat \<Rightarrow> glfloat" where
  "pow_f (Fin x) (Fin y) =
     (if x < 0 \<or> (x = 0 \<and> y \<le> 0) then NaN
      else if x = 0 then Fin 0
      else fin_result x y (x powr y))"
| "pow_f NaN _ = NaN"
| "pow_f _ NaN = NaN"
| "pow_f NInf _ = NaN"
| "pow_f (Fin x) PInf =
     (if x < 0 then NaN else if x < 1 then Fin 0 else if x = 1 then Fin 1 else PInf)"
| "pow_f (Fin x) NInf =
     (if x \<le> 0 then NaN else if x < 1 then PInf else if x = 1 then Fin 1 else Fin 0)"
| "pow_f PInf (Fin y) = (if y = 0 then Fin 1 else if 0 < y then PInf else Fin 0)"
| "pow_f PInf PInf = PInf"
| "pow_f PInf NInf = Fin 0"

section \<open>Vectors and matrices\<close>

text \<open>
  GLSL vectors and (column-major) matrices. The ring operations are polymorphic in the
  scalar, so that the same definitions are read over \<open>glfloat\<close> (the program) and over
  \<open>real\<close> (the real vectors a statement speaks of).
\<close>

datatype 'a vec2 = Vec2 (v2x: 'a) (v2y: 'a)

datatype 'a vec3 = Vec3 (vx: 'a) (vy: 'a) (vz: 'a)

datatype 'a vec4 = Vec4 (v4x: 'a) (v4y: 'a) (v4z: 'a) (v4w: 'a)

datatype 'a mat2 = Mat2 (m2c0: "'a vec2") (m2c1: "'a vec2")

datatype 'a mat3 = Mat3 (m3c0: "'a vec3") (m3c1: "'a vec3") (m3c2: "'a vec3")

datatype 'a mat4 = Mat4 (m4c0: "'a vec4") (m4c1: "'a vec4") (m4c2: "'a vec4") (m4c3: "'a vec4")

definition add_v3 :: "'a::plus vec3 \<Rightarrow> 'a vec3 \<Rightarrow> 'a vec3" where
  "add_v3 u v = Vec3 (vx u + vx v) (vy u + vy v) (vz u + vz v)"

definition sub_v3 :: "'a::minus vec3 \<Rightarrow> 'a vec3 \<Rightarrow> 'a vec3" where
  "sub_v3 u v = Vec3 (vx u - vx v) (vy u - vy v) (vz u - vz v)"

definition scale_v3 :: "'a::times \<Rightarrow> 'a vec3 \<Rightarrow> 'a vec3" where
  "scale_v3 s v = Vec3 (s * vx v) (s * vy v) (s * vz v)"

definition mul_v3 :: "'a::times vec3 \<Rightarrow> 'a vec3 \<Rightarrow> 'a vec3" where
  "mul_v3 u v = Vec3 (vx u * vx v) (vy u * vy v) (vz u * vz v)"

definition div_v3 :: "'a::inverse vec3 \<Rightarrow> 'a \<Rightarrow> 'a vec3" where
  "div_v3 v s = Vec3 (vx v / s) (vy v / s) (vz v / s)"

definition dot :: "'a::{plus,times} vec3 \<Rightarrow> 'a vec3 \<Rightarrow> 'a" where
  "dot u v = vx u * vx v + vy u * vy v + vz u * vz v"

definition cross :: "'a::{minus,times} vec3 \<Rightarrow> 'a vec3 \<Rightarrow> 'a vec3" where
  "cross u v = Vec3 (vy u * vz v - vy v * vz u)
                    (vz u * vx v - vz v * vx u)
                    (vx u * vy v - vx v * vy u)"

definition length_v3 :: "glfloat vec3 \<Rightarrow> glfloat" where
  "length_v3 v = sqrt_f (dot v v)"

definition length_v2 :: "glfloat vec2 \<Rightarrow> glfloat" where
  "length_v2 v = sqrt_f (v2x v * v2x v + v2y v * v2y v)"

definition normalize_v3 :: "glfloat vec3 \<Rightarrow> glfloat vec3" where
  "normalize_v3 v = div_v3 v (length_v3 v)"

definition any_isnan :: "glfloat vec3 \<Rightarrow> bool" where
  "any_isnan v = (isnan (vx v) \<or> isnan (vy v) \<or> isnan (vz v))"

definition mul_m3_v3 :: "'a::{plus,times} mat3 \<Rightarrow> 'a vec3 \<Rightarrow> 'a vec3" where
  "mul_m3_v3 m v =
     Vec3 (vx (m3c0 m) * vx v + vx (m3c1 m) * vy v + vx (m3c2 m) * vz v)
          (vy (m3c0 m) * vx v + vy (m3c1 m) * vy v + vy (m3c2 m) * vz v)
          (vz (m3c0 m) * vx v + vz (m3c1 m) * vy v + vz (m3c2 m) * vz v)"

definition mul_m3 :: "'a::{plus,times} mat3 \<Rightarrow> 'a mat3 \<Rightarrow> 'a mat3" where
  "mul_m3 a b = Mat3 (mul_m3_v3 a (m3c0 b)) (mul_m3_v3 a (m3c1 b)) (mul_m3_v3 a (m3c2 b))"

definition transpose_m3 :: "'a mat3 \<Rightarrow> 'a mat3" where
  "transpose_m3 m =
     Mat3 (Vec3 (vx (m3c0 m)) (vx (m3c1 m)) (vx (m3c2 m)))
          (Vec3 (vy (m3c0 m)) (vy (m3c1 m)) (vy (m3c2 m)))
          (Vec3 (vz (m3c0 m)) (vz (m3c1 m)) (vz (m3c2 m)))"

text \<open>\<^verbatim>\<open>mat3(mat2)\<close> and \<^verbatim>\<open>mat4(mat3)\<close> put the smaller matrix in the upper left corner of
  the identity; \<^verbatim>\<open>mat4(s)\<close> is the diagonal matrix of the scalar \<open>s\<close>.\<close>

definition mat3_of_mat2 :: "'a::{zero,one} mat2 \<Rightarrow> 'a mat3" where
  "mat3_of_mat2 m =
     Mat3 (Vec3 (v2x (m2c0 m)) (v2y (m2c0 m)) 0)
          (Vec3 (v2x (m2c1 m)) (v2y (m2c1 m)) 0)
          (Vec3 0 0 1)"

definition mat4_of_mat3 :: "'a::{zero,one} mat3 \<Rightarrow> 'a mat4" where
  "mat4_of_mat3 m =
     Mat4 (Vec4 (vx (m3c0 m)) (vy (m3c0 m)) (vz (m3c0 m)) 0)
          (Vec4 (vx (m3c1 m)) (vy (m3c1 m)) (vz (m3c1 m)) 0)
          (Vec4 (vx (m3c2 m)) (vy (m3c2 m)) (vz (m3c2 m)) 0)
          (Vec4 0 0 0 1)"

definition mat4_diag :: "'a::zero \<Rightarrow> 'a mat4" where
  "mat4_diag s = Mat4 (Vec4 s 0 0 0) (Vec4 0 s 0 0) (Vec4 0 0 s 0) (Vec4 0 0 0 s)"

definition vec4_of :: "'a vec3 \<Rightarrow> 'a \<Rightarrow> 'a vec4" where
  "vec4_of v s = Vec4 (vx v) (vy v) (vz v) s"

definition xyz :: "'a vec4 \<Rightarrow> 'a vec3" where
  "xyz v = Vec3 (v4x v) (v4y v) (v4z v)"

definition neg_v4 :: "'a::uminus vec4 \<Rightarrow> 'a vec4" where
  "neg_v4 v = Vec4 (- v4x v) (- v4y v) (- v4z v) (- v4w v)"

definition add_v4 :: "'a::plus vec4 \<Rightarrow> 'a vec4 \<Rightarrow> 'a vec4" where
  "add_v4 u v = Vec4 (v4x u + v4x v) (v4y u + v4y v) (v4z u + v4z v) (v4w u + v4w v)"

definition dot4 :: "'a::{plus,times} vec4 \<Rightarrow> 'a vec4 \<Rightarrow> 'a" where
  "dot4 u v = v4x u * v4x v + v4y u * v4y v + v4z u * v4z v + v4w u * v4w v"

text \<open>\<^verbatim>\<open>m * v\<close> (a column vector) and \<^verbatim>\<open>v * m\<close> (a row vector) for a \<^verbatim>\<open>mat4\<close>.\<close>

definition mul_m4_v4 :: "'a::{plus,times} mat4 \<Rightarrow> 'a vec4 \<Rightarrow> 'a vec4" where
  "mul_m4_v4 m v =
     Vec4 (v4x (m4c0 m) * v4x v + v4x (m4c1 m) * v4y v + v4x (m4c2 m) * v4z v + v4x (m4c3 m) * v4w v)
          (v4y (m4c0 m) * v4x v + v4y (m4c1 m) * v4y v + v4y (m4c2 m) * v4z v + v4y (m4c3 m) * v4w v)
          (v4z (m4c0 m) * v4x v + v4z (m4c1 m) * v4y v + v4z (m4c2 m) * v4z v + v4z (m4c3 m) * v4w v)
          (v4w (m4c0 m) * v4x v + v4w (m4c1 m) * v4y v + v4w (m4c2 m) * v4z v + v4w (m4c3 m) * v4w v)"

definition mul_v4_m4 :: "'a::{plus,times} vec4 \<Rightarrow> 'a mat4 \<Rightarrow> 'a vec4" where
  "mul_v4_m4 v m = Vec4 (dot4 v (m4c0 m)) (dot4 v (m4c1 m)) (dot4 v (m4c2 m)) (dot4 v (m4c3 m))"

abbreviation fin3 :: "real vec3 \<Rightarrow> glfloat vec3" where
  "fin3 \<equiv> map_vec3 Fin"

section \<open>The fragment shader of the SDF cylinder\<close>

subsection \<open>Inputs\<close>

text \<open>
  The \<^verbatim>\<open>in\<close> variables and the uniform that \<^verbatim>\<open>sdf_cylinder_frag_dec\<close> declares, and the
  variables of the shader template that \<^verbatim>\<open>sdf_cylinder_frag_impl\<close> reads (the vertex
  colour, the material and light colours, the specular power and the opacity).
\<close>

record frag_in =
  vertexMCVSOutput :: "glfloat vec4"
  centerWCVSOutput :: "glfloat vec3"
  directionVSOutput :: "glfloat vec3"
  heightVSOutput :: glfloat
  radiusVSOutput :: glfloat
  MCVCMatrix :: "glfloat mat4"
  vertexColorVSOutput :: "glfloat vec4"
  ambientColor :: "glfloat vec3"
  diffuseColor :: "glfloat vec3"
  specularColor :: "glfloat vec3"
  lightColor0 :: "glfloat vec3"
  specularPower :: glfloat
  opacity :: glfloat

subsection \<open>rotationMatrix\<close>

definition rotationMatrix :: "glfloat vec3 \<Rightarrow> glfloat vec3 \<Rightarrow> glfloat mat4" where
  "rotationMatrix u v =
     (let w = cross u v;
          wn = length_v3 w
      in if isnan wn \<or> wn < Fin 0 then
           (let normUV = length_v3 (sub_v3 u v)
            in if length_v3 u < normUV then mat4_diag (Fin (- 1)) else mat4_diag (Fin 1))
         else
           (let w = div_v3 w wn;
                vp = sub_v3 v (scale_v3 (dot u v) u);
                vp = div_v3 vp (length_v3 vp);
                Pt = Mat3 u vp w;
                P = transpose_m3 Pt;
                cosa = clamp (dot u v) (Fin (- 1)) (Fin 1);
                sina = sqrt_f (Fin 1 - pow_f cosa (Fin 2));
                R = mat3_of_mat2 (Mat2 (Vec2 cosa sina) (Vec2 (- sina) cosa));
                Rp = mul_m3 Pt (mul_m3 R P);
                anyNanCheckRp0 = any_isnan (m3c0 Rp);
                anyNanCheckRp1 = any_isnan (m3c1 Rp);
                anyNanCheckRp2 = any_isnan (m3c2 Rp)
            in if anyNanCheckRp0 \<or> anyNanCheckRp1 \<or> anyNanCheckRp2 then mat4_diag (Fin 1)
               else mat4_of_mat3 Rp))"

text \<open>Two parts of \<open>rotationMatrix\<close> by name: the condition of its first \<^verbatim>\<open>if\<close>, and
  the matrix \<^verbatim>\<open>Rp\<close> it computes when that condition is false.\<close>

definition rotationMatrix_guard :: "glfloat vec3 \<Rightarrow> glfloat vec3 \<Rightarrow> bool" where
  "rotationMatrix_guard u v = (let wn = length_v3 (cross u v) in isnan wn \<or> wn < Fin 0)"

definition rotationMatrix_Rp :: "glfloat vec3 \<Rightarrow> glfloat vec3 \<Rightarrow> glfloat mat3" where
  "rotationMatrix_Rp u v =
     (let w = cross u v;
          wn = length_v3 w;
          w = div_v3 w wn;
          vp = sub_v3 v (scale_v3 (dot u v) u);
          vp = div_v3 vp (length_v3 vp);
          Pt = Mat3 u vp w;
          P = transpose_m3 Pt;
          cosa = clamp (dot u v) (Fin (- 1)) (Fin 1);
          sina = sqrt_f (Fin 1 - pow_f cosa (Fin 2));
          R = mat3_of_mat2 (Mat2 (Vec2 cosa sina) (Vec2 (- sina) cosa))
      in mul_m3 Pt (mul_m3 R P))"

definition has_nan_m3 :: "glfloat mat3 \<Rightarrow> bool" where
  "has_nan_m3 m = (any_isnan (m3c0 m) \<or> any_isnan (m3c1 m) \<or> any_isnan (m3c2 m))"

definition has_nan_v4 :: "glfloat vec4 \<Rightarrow> bool" where
  "has_nan_v4 v = (isnan (v4x v) \<or> isnan (v4y v) \<or> isnan (v4z v) \<or> isnan (v4w v))"

definition has_nan_m4 :: "glfloat mat4 \<Rightarrow> bool" where
  "has_nan_m4 m = (has_nan_v4 (m4c0 m) \<or> has_nan_v4 (m4c1 m) \<or> has_nan_v4 (m4c2 m) \<or> has_nan_v4 (m4c3 m))"

subsection \<open>sdCylinder\<close>

text \<open>
  \<^verbatim>\<open>vec2 d = abs(vec2(length(p.xz),p.y)) - vec2(r,h);\<close>
  \<^verbatim>\<open>return min(max(d.x,d.y),0.0) + length(max(d,0.0));\<close>
\<close>

definition sdCylinder :: "glfloat vec3 \<Rightarrow> glfloat \<Rightarrow> glfloat \<Rightarrow> glfloat" where
  "sdCylinder p r h =
     (let d = Vec2 (abs_f (length_v2 (Vec2 (vx p) (vz p))) - r) (abs_f (vy p) - h)
      in min_f (max_f (v2x d) (v2y d)) (Fin 0)
         + length_v2 (Vec2 (max_f (v2x d) (Fin 0)) (max_f (v2y d) (Fin 0))))"

subsection \<open>map\<close>

text \<open>The distance field of the scene (\<^verbatim>\<open>map\<close> in the source).\<close>

definition map_sdf :: "frag_in \<Rightarrow> glfloat vec3 \<Rightarrow> glfloat" where
  "map_sdf env position =
     (let rot = rotationMatrix (normalize_v3 (directionVSOutput env))
                               (normalize_v3 (Vec3 (Fin 0) (Fin 1) (Fin 0)));
          pos = xyz (mul_m4_v4 rot (vec4_of (sub_v3 position (centerWCVSOutput env)) (Fin 0)))
      in sdCylinder pos (radiusVSOutput env) (heightVSOutput env / Fin 2))"

subsection \<open>calculateNormal\<close>

definition calculateNormal :: "frag_in \<Rightarrow> glfloat vec3 \<Rightarrow> glfloat vec3" where
  "calculateNormal env position =
     (let e = Vec2 (Fin 0.001) (Fin 0.0);
          xyy = Vec3 (v2x e) (v2y e) (v2y e);
          yxy = Vec3 (v2y e) (v2x e) (v2y e);
          yyx = Vec3 (v2y e) (v2y e) (v2x e)
      in normalize_v3
           (Vec3 (map_sdf env (add_v3 position xyy) - map_sdf env (sub_v3 position xyy))
                 (map_sdf env (add_v3 position yxy) - map_sdf env (sub_v3 position yxy))
                 (map_sdf env (add_v3 position yyx) - map_sdf env (sub_v3 position yyx))))"

subsection \<open>castRay\<close>

text \<open>The \<^verbatim>\<open>for\<close> loop of \<^verbatim>\<open>castRay\<close>, from its counter \<open>i\<close> and the distance \<open>t\<close>
  accumulated so far.\<close>

function castRay_loop :: "frag_in \<Rightarrow> glfloat vec3 \<Rightarrow> glfloat vec3 \<Rightarrow> int \<Rightarrow> glfloat \<Rightarrow> glfloat" where
  "castRay_loop env ro rd i t =
     (if i < 4000 then
        (let position = add_v3 ro (scale_v3 t rd);
             h = map_sdf env position;
             t' = t + h
         in if Fin 20.0 < t' \<or> h < Fin 0.001 then t' else castRay_loop env ro rd (i + 1) t')
      else t)"
  by pat_completeness auto
termination
  by (relation "measure (\<lambda>(env, ro, rd, i, t). nat (4000 - i))") auto

definition castRay :: "frag_in \<Rightarrow> glfloat vec3 \<Rightarrow> glfloat vec3 \<Rightarrow> glfloat" where
  "castRay env ro rd = castRay_loop env ro rd 0 (Fin 0.0)"

text \<open>
  Sphere tracing, as the specification words it: the distance accumulated after \<open>k\<close>
  steps, the field value the step numbered \<open>k\<close> (from 0) evaluates, the early-exit
  condition after that step, and the number of steps taken (at most 4000).
\<close>

primrec acc_dist :: "frag_in \<Rightarrow> glfloat vec3 \<Rightarrow> glfloat vec3 \<Rightarrow> nat \<Rightarrow> glfloat" where
  "acc_dist env ro rd 0 = Fin 0"
| "acc_dist env ro rd (Suc k) =
     acc_dist env ro rd k + map_sdf env (add_v3 ro (scale_v3 (acc_dist env ro rd k) rd))"

definition field_at :: "frag_in \<Rightarrow> glfloat vec3 \<Rightarrow> glfloat vec3 \<Rightarrow> nat \<Rightarrow> glfloat" where
  "field_at env ro rd k = map_sdf env (add_v3 ro (scale_v3 (acc_dist env ro rd k) rd))"

definition stops_at :: "frag_in \<Rightarrow> glfloat vec3 \<Rightarrow> glfloat vec3 \<Rightarrow> nat \<Rightarrow> bool" where
  "stops_at env ro rd k =
     (Fin 20 < acc_dist env ro rd (Suc k) \<or> field_at env ro rd k < Fin 0.001)"

definition steps_taken :: "frag_in \<Rightarrow> glfloat vec3 \<Rightarrow> glfloat vec3 \<Rightarrow> nat" where
  "steps_taken env ro rd =
     (case find (stops_at env ro rd) [0..<4000] of None \<Rightarrow> 4000 | Some k \<Rightarrow> Suc k)"

definition sphere_trace :: "frag_in \<Rightarrow> glfloat vec3 \<Rightarrow> glfloat vec3 \<Rightarrow> glfloat" where
  "sphere_trace env ro rd = acc_dist env ro rd (steps_taken env ro rd)"

subsection \<open>The fragment stage\<close>

text \<open>The fragment stage either writes \<^verbatim>\<open>fragOutput0\<close> or executes \<^verbatim>\<open>discard\<close>.\<close>

datatype frag_out = FragOutput0 "glfloat vec4" | Discard

text \<open>The ray the fragment stage casts: \<^verbatim>\<open>ro.xyz\<close> after \<^verbatim>\<open>ro += ...\<close>, and \<^verbatim>\<open>rd\<close>.\<close>

definition frag_ro :: "frag_in \<Rightarrow> glfloat vec4" where
  "frag_ro env =
     (let point = xyz (vertexMCVSOutput env);
          ro = mul_v4_m4 (neg_v4 (m4c3 (MCVCMatrix env))) (MCVCMatrix env)
      in add_v4 ro (vec4_of (sub_v3 point (xyz ro)) (Fin 0.0)))"

definition frag_rd :: "frag_in \<Rightarrow> glfloat vec3" where
  "frag_rd env =
     (let point = xyz (vertexMCVSOutput env);
          ro = mul_v4_m4 (neg_v4 (m4c3 (MCVCMatrix env))) (MCVCMatrix env)
      in normalize_v3 (sub_v3 point (xyz ro)))"

definition sdf_cylinder_frag_impl :: "frag_in \<Rightarrow> frag_out" where
  "sdf_cylinder_frag_impl env =
     (let point = xyz (vertexMCVSOutput env);
          ro = mul_v4_m4 (neg_v4 (m4c3 (MCVCMatrix env))) (MCVCMatrix env);
          col = xyz (vertexColorVSOutput env);
          rd = normalize_v3 (sub_v3 point (xyz ro));
          ld = normalize_v3 (sub_v3 (xyz ro) point);
          ro = add_v4 ro (vec4_of (sub_v3 point (xyz ro)) (Fin 0.0));
          t = castRay env (xyz ro) rd
      in if t < Fin 20.0 then
           (let position = add_v3 (xyz ro) (scale_v3 t rd);
                norm = calculateNormal env position;
                lightAttenuation = dot ld norm;
                df = max_f (Fin 0) lightAttenuation;
                diffuse = mul_v3 (scale_v3 df (diffuseColor env)) (lightColor0 env);
                sf = pow_f df (specularPower env);
                specular = mul_v3 (scale_v3 sf (specularColor env)) (lightColor0 env)
            in FragOutput0 (vec4_of (add_v3 (add_v3 (ambientColor env) diffuse) specular)
                                    (opacity env)))
         else Discard)"

section \<open>The list box of the user-interface example\<close>

text \<open>
  \<^verbatim>\<open>viz_ui.py\<close>: the UI elements of the example groups, the cube, and the list box.
  An element is an object of the UI library; \<^verbatim>\<open>set_visibility\<close> sets its visibility
  flag, which is all the script observes of it.
\<close>

datatype element =
  rect | disk | ring | img | panel
  | ring_slider | line_slider_x | line_slider_y
  | range_slider_x | range_slider_y

record ui_state =
  visibility :: "element \<Rightarrow> bool"
  cube_visibility :: bool
  listbox_selected :: "string list"

datatype py_error = IndexError | ValueError

definition examples :: "element list list" where
  "examples =
     [[rect],
      [disk, ring],
      [img],
      [panel],
      [ring_slider, line_slider_x, line_slider_y],
      [range_slider_x, range_slider_y]]"

text \<open>The list \<^verbatim>\<open>values\<close> of the labels.\<close>

definition label_values :: "string list" where
  "label_values =
     [''Rectangle'',
      ''Disks'',
      ''Image'',
      ''Button Panel'',
      ''Line & Ring Slider'',
      ''Range Slider'']"

definition set_visibility :: "element \<Rightarrow> bool \<Rightarrow> ui_state \<Rightarrow> ui_state" where
  "set_visibility e b s = s\<lparr>visibility := (visibility s)(e := b)\<rparr>"

definition SetVisibility :: "bool \<Rightarrow> ui_state \<Rightarrow> ui_state" where
  "SetVisibility b s = s\<lparr>cube_visibility := b\<rparr>"

definition hide_all_examples :: "ui_state \<Rightarrow> ui_state" where
  "hide_all_examples s =
     SetVisibility False
       (foldl (\<lambda>s example. foldl (\<lambda>s element. set_visibility element False s) s example)
              s examples)"

text \<open>\<^verbatim>\<open>list.index\<close>: the first position of an item, or ValueError.\<close>

fun index_of :: "'a list \<Rightarrow> 'a \<Rightarrow> nat option" where
  "index_of [] a = None"
| "index_of (x # xs) a = (if x = a then Some 0 else map_option Suc (index_of xs a))"

definition py_index :: "'a list \<Rightarrow> 'a \<Rightarrow> py_error + nat" where
  "py_index xs a = (case index_of xs a of None \<Rightarrow> Inl ValueError | Some i \<Rightarrow> Inr i)"

definition py_get :: "'a list \<Rightarrow> nat \<Rightarrow> py_error + 'a" where
  "py_get xs i = (if i < length xs then Inr (xs ! i) else Inl IndexError)"

definition display_element :: "ui_state \<Rightarrow> py_error + ui_state" where
  "display_element s0 =
     (let s = hide_all_examples s0 in
      case py_get (listbox_selected s) 0 of Inl err \<Rightarrow> Inl err | Inr label \<Rightarrow>
      case py_index label_values label of Inl err \<Rightarrow> Inl err | Inr i \<Rightarrow>
      case py_get examples i of Inl err \<Rightarrow> Inl err | Inr example \<Rightarrow>
        (let s = foldl (\<lambda>s element. set_visibility element True s) s example in
         case py_get (listbox_selected s) 0 of Inl err \<Rightarrow> Inl err | Inr label \<Rightarrow>
         case py_index label_values label of Inl err \<Rightarrow> Inl err | Inr j \<Rightarrow>
           if j = 4 then Inr (SetVisibility True s) else Inr s))"

text \<open>A state of the interface in which the label \<^verbatim>\<open>Disks\<close> is selected.\<close>

definition ui0 :: ui_state where
  "ui0 = \<lparr>visibility = (\<lambda>e. True), cube_visibility = False, listbox_selected = [''Disks'']\<rparr>"

text \<open>
  Inputs of one fragment: the cylinder of the script (radius 0.5, height 1) at the origin
  with its axis along y, the camera at \<open>(5, 0, 0)\<close> (the model-view matrix is the
  translation by \<open>(-5, 0, 0)\<close>), and the fragment at \<open>(0.5, 0, 0)\<close>.
\<close>

definition env0 :: frag_in where
  "env0 = \<lparr>vertexMCVSOutput = Vec4 (Fin 0.5) (Fin 0) (Fin 0) (Fin 1),
            centerWCVSOutput = Vec3 (Fin 0) (Fin 0) (Fin 0),
            directionVSOutput = Vec3 (Fin 0) (Fin 1) (Fin 0),
            heightVSOutput = Fin 1,
            radiusVSOutput = Fin 0.5,
            MCVCMatrix = Mat4 (Vec4 (Fin 1) (Fin 0) (Fin 0) (Fin 0))
                              (Vec4 (Fin 0) (Fin 1) (Fin 0) (Fin 0))
                              (Vec4 (Fin 0) (Fin 0) (Fin 1) (Fin 0))
                              (Vec4 (Fin (- 5)) (Fin 0) (Fin 0) (Fin 1)),
            vertexColorVSOutput = Vec4 (Fin 1) (Fin 0) (Fin 0) (Fin 1),
            ambientColor = Vec3 (Fin 0) (Fin 0) (Fin 0),
            diffuseColor = Vec3 (Fin 1) (Fin 0) (Fin 0),
            specularColor = Vec3 (Fin 1) (Fin 1) (Fin 1),
            lightColor0 = Vec3 (Fin 1) (Fin 1) (Fin 1),
            specularPower = Fin 100,
            opacity = Fin 1\<rparr>"

text \<open>The same inputs with a cylinder of height 100, and a ray that runs parallel to its
  axis at the distance \<open>1/512\<close> (about 0.002) from its side.\<close>

definition env_tall :: frag_in where
  "env_tall = env0\<lparr>heightVSOutput := Fin 100\<rparr>"

definition ro_beside :: "glfloat vec3" where
  "ro_beside = Vec3 (Fin (257/512)) (Fin 0) (Fin 0)"

definition rd_up :: "glfloat vec3" where
  "rd_up = Vec3 (Fin 0) (Fin 1) (Fin 0)"






section \<open>Arithmetic on finite values\<close>

lemma in_range_0 [simp]: "in_range 0"
  by (simp add: in_range_def flt_limit_def)

lemma in_range_minus [simp]: "in_range (- x) = in_range x"
  by (simp add: in_range_def)

lemma in_range_small: "\<bar>x\<bar> \<le> 2 ^ 100 \<Longrightarrow> in_range x"
  by (simp add: in_range_def flt_limit_def)

lemma fin_result_in_range [simp]: "in_range r \<Longrightarrow> fin_result a b r = Fin r"
  by (simp add: fin_result_def)

lemma fin_result_operand [simp]: "fin_result a b a = Fin a" "fin_result a b b = Fin b"
  by (auto simp: fin_result_def)

lemma fin_result_minus [simp]: "fin_result a (- b) r = fin_result a b r"
  by (simp add: fin_result_def)

lemma fin_result_not_nan [simp]: "fin_result a b r \<noteq> NaN"
  by (simp add: fin_result_def)

lemma fin_result_cases:
  "fin_result a b r = Fin r
   \<or> (in_range a \<and> in_range b \<and> \<not> in_range r \<and> (fin_result a b r = PInf \<or> fin_result a b r = NInf))"
  by (simp add: fin_result_def)

lemma le_Fin [simp]: "(Fin a \<le> Fin b) = (a \<le> b)"
  by (auto simp: less_eq_glfloat_def)

lemma minus_Fin: "Fin a - Fin b = fin_result a b (a - b)"
  by (simp add: minus_glfloat_def)

lemma minus_self [simp]: "Fin a - Fin a = Fin 0"
  by (simp add: minus_Fin)

lemma abs_f_Fin [simp]: "abs_f (Fin a) = Fin \<bar>a\<bar>"
  by (simp add: abs_f_def)

lemma min_f_Fin [simp]: "min_f (Fin a) (Fin b) = Fin (min a b)"
  by (simp add: min_f_def min_def)

lemma max_f_Fin [simp]: "max_f (Fin a) (Fin b) = Fin (max a b)"
  by (simp add: max_f_def max_def)

lemma plus_NaN [simp]: "x + NaN = NaN" "NaN + x = NaN"
  by (cases x; simp)+

lemma times_NaN [simp]: "x * NaN = NaN" "NaN * x = NaN"
  by (cases x; simp)+

lemma divide_NaN [simp]: "x / NaN = NaN" "NaN / x = NaN"
  by (cases x; simp)+

lemma minus_NaN [simp]: "x - NaN = NaN" "NaN - x = NaN"
  by (simp_all add: minus_glfloat_def)

lemma zero_div_zero [simp]: "Fin 0 / Fin 0 = NaN"
  by simp

lemma isnan_simps [simp]: "isnan NaN" "\<not> isnan (Fin a)" "\<not> isnan PInf" "\<not> isnan NInf"
  by (simp_all add: isnan_def)

lemma times_zero_one [simp]:
  "Fin 0 * Fin x = Fin 0" "Fin x * Fin 0 = Fin 0" "Fin 1 * Fin x = Fin x" "Fin x * Fin 1 = Fin x"
  by simp_all

lemma plus_zero [simp]: "Fin x + Fin 0 = Fin x" "Fin 0 + Fin x = Fin x"
  by simp_all

section \<open>The list-box callback\<close>

lemma index_of_label_values:
  "index_of label_values l = Some i \<Longrightarrow> i < 6 \<and> label_values ! i = l"
  by (auto simp: label_values_def split: if_splits)

lemma visibility_hide_all [simp]: "visibility (hide_all_examples s) = (\<lambda>e. False)"
proof
  fix e show "visibility (hide_all_examples s) e = False"
    by (cases e) (simp_all add: hide_all_examples_def examples_def set_visibility_def SetVisibility_def)
qed

lemma listbox_hide_all [simp]: "listbox_selected (hide_all_examples s) = listbox_selected s"
  by (simp add: hide_all_examples_def examples_def set_visibility_def SetVisibility_def)

lemma cube_hide_all [simp]: "cube_visibility (hide_all_examples s) = False"
  by (simp add: hide_all_examples_def SetVisibility_def)

lemma show_group_visibility:
  "visibility (foldl (\<lambda>s element. set_visibility element True s) s es) e
     = (e \<in> set es \<or> visibility s e)"
  by (induction es arbitrary: s) (auto simp: set_visibility_def)

lemma show_group_other [simp]:
  "listbox_selected (foldl (\<lambda>s element. set_visibility element True s) s es) = listbox_selected s"
  "cube_visibility (foldl (\<lambda>s element. set_visibility element True s) s es) = cube_visibility s"
  by (induction es arbitrary: s) (auto simp: set_visibility_def)

lemma display_element_result:
  assumes sel: "listbox_selected s = l # rest" and idx: "index_of label_values l = Some i"
  shows "\<exists>s'. display_element s = Inr s' \<and> visibility s' = (\<lambda>e. e \<in> set (examples ! i))
           \<and> cube_visibility s' = (i = 4)"
proof -
  from idx have i: "i < 6" by (simp add: index_of_label_values)
  then have len: "i < length examples" by (simp add: examples_def)
  show ?thesis
    using sel idx len
    by (auto simp: display_element_def Let_def py_get_def py_index_def SetVisibility_def
        show_group_visibility)
qed

lemma examples_disjoint:
  "i < length examples \<Longrightarrow> j < length examples \<Longrightarrow> j \<noteq> i \<Longrightarrow>
   e \<in> set (examples ! j) \<Longrightarrow> e \<notin> set (examples ! i)"
  by (auto simp: examples_def less_Suc_eq numeral_eq_Suc nth_Cons')

text \<open>
  C10. After \<open>display_element\<close> runs with a label of the list selected, every element of
  every example group other than the selected one is invisible, every element of the
  selected group is visible, and the cube is visible if and only if the selected label is
  the one at index 4, \<^verbatim>\<open>Line & Ring Slider\<close>.
\<close>

theorem display_element_visibility:
  assumes "listbox_selected s = l # rest" and "index_of label_values l = Some i"
  shows "\<exists>s'. display_element s = Inr s' \<and> i < length examples \<and> label_values ! i = l \<and>
           (\<forall>j<length examples. j \<noteq> i \<longrightarrow> (\<forall>e\<in>set (examples ! j). \<not> visibility s' e)) \<and>
           (\<forall>e\<in>set (examples ! i). visibility s' e) \<and>
           (cube_visibility s' \<longleftrightarrow> i = 4) \<and>
           label_values ! 4 = ''Line & Ring Slider''"
proof -
  from assms obtain s' where s': "display_element s = Inr s'"
      "visibility s' = (\<lambda>e. e \<in> set (examples ! i))" "cube_visibility s' = (i = 4)"
    using display_element_result by blast
  from assms(2) have i: "i < 6" "label_values ! i = l" by (simp_all add: index_of_label_values)
  then have len: "i < length examples" by (simp add: examples_def)
  have "\<forall>j<length examples. j \<noteq> i \<longrightarrow> (\<forall>e\<in>set (examples ! j). \<not> visibility s' e)"
    using examples_disjoint [OF len] by (simp add: s'(2))
  moreover have "label_values ! 4 = ''Line & Ring Slider''" by (simp add: label_values_def)
  ultimately show ?thesis using s' i len by simp
qed

theorem display_element_visibility_witness:
  "listbox_selected ui0 = [''Disks''] \<and> index_of label_values ''Disks'' = Some 1 \<and>
   (\<exists>s'. display_element ui0 = Inr s' \<and> visibility s' disk \<and> visibility s' ring
      \<and> \<not> visibility s' rect \<and> \<not> visibility s' panel \<and> \<not> cube_visibility s')"
proof -
  have sel: "listbox_selected ui0 = ''Disks'' # []" by (simp add: ui0_def)
  have idx: "index_of label_values ''Disks'' = Some 1" by (simp add: label_values_def)
  from display_element_visibility [OF sel idx] obtain s' where
    s': "display_element ui0 = Inr s'"
        "\<forall>j<length examples. j \<noteq> 1 \<longrightarrow> (\<forall>e\<in>set (examples ! j). \<not> visibility s' e)"
        "\<forall>e\<in>set (examples ! 1). visibility s' e" "cube_visibility s' \<longleftrightarrow> (1::nat) = 4"
    by blast
  have "\<not> visibility s' rect" "\<not> visibility s' panel"
    using s'(2) [rule_format, of 0 rect] s'(2) [rule_format, of 3 panel]
    by (simp_all add: examples_def)
  with s' sel idx show ?thesis by (simp add: examples_def)
qed

section \<open>The ray-marching loop\<close>

declare castRay_loop.simps [simp del]

lemma castRay_loop_done: "castRay_loop env ro rd 4000 t = t"
  by (subst castRay_loop.simps) simp

lemma castRay_loop_step:
  "i < 4000 \<Longrightarrow>
   castRay_loop env ro rd (int i) (acc_dist env ro rd i) =
     (if stops_at env ro rd i then acc_dist env ro rd (Suc i)
      else castRay_loop env ro rd (int (Suc i)) (acc_dist env ro rd (Suc i)))"
  by (subst castRay_loop.simps) (simp add: Let_def stops_at_def field_at_def add.commute)

lemma castRay_loop_acc:
  "4000 - i = n \<Longrightarrow> i \<le> 4000 \<Longrightarrow>
   castRay_loop env ro rd (int i) (acc_dist env ro rd i) =
     acc_dist env ro rd
       (case find (stops_at env ro rd) [i..<4000] of None \<Rightarrow> 4000 | Some k \<Rightarrow> Suc k)"
proof (induction n arbitrary: i)
  case 0
  then have "i = 4000" by simp
  then show ?case by (simp add: castRay_loop_done)
next
  case (Suc n)
  then have lt: "i < 4000" and n: "4000 - Suc i = n" and le: "Suc i \<le> 4000" by simp_all
  have upt: "[i..<4000] = i # [Suc i..<4000]" using lt by (simp add: upt_conv_Cons)
  show ?case
    using Suc.IH [OF n le] by (simp add: castRay_loop_step [OF lt] upt)
qed

lemma castRay_eq_sphere_trace: "castRay env ro rd = sphere_trace env ro rd"
  using castRay_loop_acc [of 0 4000 env ro rd]
  by (simp add: castRay_def sphere_trace_def steps_taken_def)

lemma steps_taken_bounds: "0 < steps_taken env ro rd \<and> steps_taken env ro rd \<le> 4000"
  by (auto simp: steps_taken_def find_Some_iff split: option.splits)

lemma steps_taken_first: "Suc k < steps_taken env ro rd \<Longrightarrow> \<not> stops_at env ro rd k"
  by (auto simp: steps_taken_def find_Some_iff find_None_iff split: option.splits)

lemma steps_taken_early:
  assumes "steps_taken env ro rd < 4000"
  shows "stops_at env ro rd (steps_taken env ro rd - 1)"
proof (cases "find (stops_at env ro rd) [0..<4000]")
  case None
  with assms show ?thesis by (simp add: steps_taken_def)
next
  case (Some k)
  then have "stops_at env ro rd k" by (auto simp: find_Some_iff)
  with Some show ?thesis by (simp add: steps_taken_def)
qed

text \<open>
  C1. \<open>castRay\<close> is sphere tracing: from the accumulated distance 0 it takes at most 4000
  steps, each of which evaluates the distance field at the current position of the ray
  and adds the value to the accumulated distance; it stops after the first step at which
  the accumulated distance exceeds 20 or the field value is below 0.001, and returns the
  accumulated distance.
\<close>

theorem castRay_sphere_tracing:
  "castRay env ro rd = sphere_trace env ro rd \<and>
   sphere_trace env ro rd = acc_dist env ro rd (steps_taken env ro rd) \<and>
   0 < steps_taken env ro rd \<and> steps_taken env ro rd \<le> 4000 \<and>
   (\<forall>k. Suc k < steps_taken env ro rd \<longrightarrow> \<not> stops_at env ro rd k) \<and>
   (steps_taken env ro rd < 4000 \<longrightarrow> stops_at env ro rd (steps_taken env ro rd - 1))"
  using castRay_eq_sphere_trace steps_taken_bounds steps_taken_first steps_taken_early
  by (simp add: sphere_trace_def)

section \<open>rotationMatrix\<close>

lemma rotationMatrix_parts:
  "rotationMatrix u v =
     (if rotationMatrix_guard u v then
        (if length_v3 u < length_v3 (sub_v3 u v) then mat4_diag (Fin (- 1)) else mat4_diag (Fin 1))
      else if has_nan_m3 (rotationMatrix_Rp u v) then mat4_diag (Fin 1)
      else mat4_of_mat3 (rotationMatrix_Rp u v))"
  by (simp add: rotationMatrix_def rotationMatrix_guard_def rotationMatrix_Rp_def has_nan_m3_def
      Let_def)

lemma no_nan_diag: "\<not> has_nan_m4 (mat4_diag (Fin s))"
  by (simp add: has_nan_m4_def has_nan_v4_def mat4_diag_def zero_glfloat_def)

lemma no_nan_of_mat3: "\<not> has_nan_m3 m \<Longrightarrow> \<not> has_nan_m4 (mat4_of_mat3 m)"
  by (simp add: has_nan_m4_def has_nan_v4_def has_nan_m3_def any_isnan_def mat4_of_mat3_def
      zero_glfloat_def one_glfloat_def)

lemma rotationMatrix_no_nan: "\<not> has_nan_m4 (rotationMatrix u v)"
  by (simp add: rotationMatrix_parts no_nan_diag no_nan_of_mat3)



lemma mat4_identity_apply:
  "mul_m4_v4 (mat4_diag (Fin 1)) (Vec4 (Fin x) (Fin y) (Fin z) (Fin s)) = Vec4 (Fin x) (Fin y) (Fin z) (Fin s)"
  by (simp add: mul_m4_v4_def mat4_diag_def zero_glfloat_def)

text \<open>Values that are not NaN and not negative: the finite numbers from 0 on, and \<open>+\<infinity>\<close>.\<close>

lemma nonneg_cases: "(Fin 0 \<le> x) = ((\<exists>d. x = Fin d \<and> 0 \<le> d) \<or> x = PInf)"
  by (cases x) (auto simp: less_eq_glfloat_def)

lemma nonneg_not_guard: "Fin 0 \<le> x \<Longrightarrow> \<not> (isnan x \<or> x < Fin 0)"
  by (cases x) (auto simp: less_eq_glfloat_def)

lemma square_nonneg: "x \<noteq> NaN \<Longrightarrow> Fin 0 \<le> x * x"
  by (cases x) (auto simp: fin_result_def less_eq_glfloat_def)

lemma add_nonneg: "Fin 0 \<le> x \<Longrightarrow> Fin 0 \<le> y \<Longrightarrow> Fin 0 \<le> x + y"
  by (cases x; cases y) (auto simp: fin_result_def less_eq_glfloat_def in_range_def)

lemma sqrt_nonneg: "Fin 0 \<le> x \<Longrightarrow> Fin 0 \<le> sqrt_f x"
  by (cases x) (auto simp: less_eq_glfloat_def)

lemma length_v3_nonneg:
  assumes "\<not> any_isnan w"
  shows "Fin 0 \<le> length_v3 w"
proof -
  from assms have "vx w \<noteq> NaN" "vy w \<noteq> NaN" "vz w \<noteq> NaN"
    by (auto simp: any_isnan_def isnan_def)
  then show ?thesis
    by (simp add: length_v3_def dot_def sqrt_nonneg add_nonneg square_nonneg)
qed

lemma length_v3_nan: "any_isnan w \<Longrightarrow> length_v3 w = NaN"
  by (cases w) (auto simp: any_isnan_def isnan_def length_v3_def dot_def)

lemma no_nan_fin3 [simp]: "\<not> any_isnan (fin3 u)"
  by (cases u) (simp add: any_isnan_def)

lemma length_v3_zero: "length_v3 (Vec3 (Fin 0) (Fin 0) (Fin 0)) = Fin 0"
  by (simp add: length_v3_def dot_def)

lemma Rp_nan_third_column:
  "has_nan_m3 (mul_m3 (Mat3 u vp (Vec3 NaN NaN NaN)) m)"
  by (simp add: has_nan_m3_def mul_m3_def mul_m3_v3_def any_isnan_def)

lemma Rp_zero_cross:
  assumes "cross u v = Vec3 (Fin 0) (Fin 0) (Fin 0)"
  shows "has_nan_m3 (rotationMatrix_Rp u v)"
proof -
  have "div_v3 (cross u v) (length_v3 (cross u v)) = Vec3 NaN NaN NaN"
    unfolding assms length_v3_zero by (simp add: div_v3_def)
  then show ?thesis
    by (simp add: rotationMatrix_Rp_def Let_def Rp_nan_third_column)
qed

lemma rotationMatrix_zero_cross:
  assumes "cross u v = Vec3 (Fin 0) (Fin 0) (Fin 0)"
  shows "rotationMatrix u v = mat4_diag (Fin 1)"
proof -
  have "\<not> rotationMatrix_guard u v"
    by (simp add: rotationMatrix_guard_def assms length_v3_zero)
  then show ?thesis
    by (simp add: rotationMatrix_parts Rp_zero_cross [OF assms])
qed

lemma sub_self_cases: "x - x = Fin 0 \<or> x - x = NaN"
  by (cases x) (simp_all add: minus_glfloat_def)

lemma cross_self_cases:
  "cross w w = Vec3 (Fin 0) (Fin 0) (Fin 0) \<or> any_isnan (cross w w)"
  using sub_self_cases [of "vy w * vz w"] sub_self_cases [of "vz w * vx w"]
    sub_self_cases [of "vx w * vy w"]
  by (auto simp: cross_def any_isnan_def)

lemma sub_v3_self: "sub_v3 (fin3 u) (fin3 u) = Vec3 (Fin 0) (Fin 0) (Fin 0)"
  by (cases u) (simp add: sub_v3_def)

lemma rotationMatrix_same_aux: "rotationMatrix (fin3 u) (fin3 u) = mat4_diag (Fin 1)"
proof (cases "any_isnan (cross (fin3 u) (fin3 u))")
  case True
  then have "rotationMatrix_guard (fin3 u) (fin3 u)"
    by (simp add: rotationMatrix_guard_def length_v3_nan)
  moreover have "\<not> length_v3 (fin3 u) < Fin 0"
    using nonneg_not_guard [OF length_v3_nonneg [OF no_nan_fin3]] by blast
  ultimately show ?thesis
    by (simp add: rotationMatrix_parts sub_v3_self length_v3_zero)
next
  case False
  with cross_self_cases [of "fin3 u"] show ?thesis
    by (auto intro: rotationMatrix_zero_cross)
qed



subsection \<open>A vector and its negation\<close>

lemma fin_result_minus_left [simp]: "fin_result (- a) b r = fin_result a b r"
  by (simp add: fin_result_def)

lemma overflow_square:
  assumes "in_range a" and "in_range b" and "\<not> in_range (a * b)"
  shows "Fin a * Fin a = PInf \<or> Fin b * Fin b = PInf"
proof -
  have l: "flt_limit \<le> \<bar>a\<bar> * \<bar>b\<bar>"
    using assms(3) by (simp add: in_range_def abs_mult)
  have pos: "0 < flt_limit" by (simp add: flt_limit_def)
  have "\<bar>a\<bar> * \<bar>b\<bar> \<le> a * a \<or> \<bar>a\<bar> * \<bar>b\<bar> \<le> b * b"
  proof (cases "\<bar>a\<bar> \<le> \<bar>b\<bar>")
    case True
    then show ?thesis using mult_right_mono [of "\<bar>a\<bar>" "\<bar>b\<bar>" "\<bar>b\<bar>"] by simp
  next
    case False
    then show ?thesis using mult_left_mono [of "\<bar>b\<bar>" "\<bar>a\<bar>" "\<bar>a\<bar>"] by simp
  qed
  with l have "flt_limit \<le> a * a \<or> flt_limit \<le> b * b" by linarith
  then show ?thesis
    using assms(1,2) pos by (auto simp: fin_result_def in_range_def)
qed

lemma sum_PInf:
  "Fin 0 \<le> p \<Longrightarrow> Fin 0 \<le> q \<Longrightarrow> Fin 0 \<le> r \<Longrightarrow> p = PInf \<or> q = PInf \<or> r = PInf
   \<Longrightarrow> p + q + r = PInf"
  by (cases p; cases q; cases r) (auto simp: less_eq_glfloat_def fin_result_def)

lemma length_v3_PInf:
  assumes "Fin a * Fin a = PInf \<or> Fin b * Fin b = PInf \<or> Fin c * Fin c = PInf"
  shows "length_v3 (Vec3 (Fin a) (Fin b) (Fin c)) = PInf"
proof -
  have "Fin a * Fin a + Fin b * Fin b + Fin c * Fin c = PInf"
    using assms by (intro sum_PInf square_nonneg) simp_all
  then show ?thesis by (simp add: length_v3_def dot_def)
qed

lemma negated_product_cases:
  "Fin a * Fin (- b) - Fin (- a) * Fin b = Fin 0
   \<or> (Fin a * Fin (- b) - Fin (- a) * Fin b = NaN
       \<and> (Fin a * Fin a = PInf \<or> Fin b * Fin b = PInf))"
proof (cases "in_range a \<and> in_range b \<and> \<not> in_range (a * b)")
  case True
  then have "Fin a * Fin a = PInf \<or> Fin b * Fin b = PInf" using overflow_square by blast
  moreover have "Fin a * Fin (- b) - Fin (- a) * Fin b = Fin 0
                 \<or> Fin a * Fin (- b) - Fin (- a) * Fin b = NaN"
    using sub_self_cases [of "fin_result a b (- (a * b))"] by simp
  ultimately show ?thesis by blast
next
  case False
  then have "fin_result a b (- (a * b)) = Fin (- (a * b))"
    by (auto simp: fin_result_def)
  then show ?thesis by simp
qed

lemma rotationMatrix_negated:
  "rotationMatrix (fin3 a) (fin3 (scale_v3 (- 1) a)) = mat4_diag (Fin 1)"
proof -
  obtain x y z where a: "a = Vec3 x y z" by (cases a)
  let ?u = "Vec3 (Fin x) (Fin y) (Fin z)" and ?v = "Vec3 (Fin (- x)) (Fin (- y)) (Fin (- z))"
  have v: "fin3 (scale_v3 (- 1) a) = ?v" and u: "fin3 a = ?u"
    by (simp_all add: a scale_v3_def)
  note c = negated_product_cases [of y z] negated_product_cases [of z x]
    negated_product_cases [of x y]
  show ?thesis
  proof (cases "cross ?u ?v = Vec3 (Fin 0) (Fin 0) (Fin 0)")
    case True
    then show ?thesis unfolding u v by (rule rotationMatrix_zero_cross)
  next
    case False
    with c have nan: "any_isnan (cross ?u ?v)"
      by (auto simp: cross_def any_isnan_def)
    from False c have "Fin x * Fin x = PInf \<or> Fin y * Fin y = PInf \<or> Fin z * Fin z = PInf"
      by (auto simp: cross_def)
    then have "length_v3 ?u = PInf" by (rule length_v3_PInf)
    then have "\<not> length_v3 ?u < length_v3 (sub_v3 ?u ?v)"
      by (cases "length_v3 (sub_v3 ?u ?v)") simp_all
    moreover have "rotationMatrix_guard ?u ?v"
      using nan by (simp add: rotationMatrix_guard_def length_v3_nan)
    ultimately show ?thesis
      unfolding u v by (simp add: rotationMatrix_parts)
  qed
qed

text \<open>
  C4. \<open>rotationMatrix\<close> never returns a matrix with a NaN entry, whatever its arguments.
  When the first condition is false, so that the matrix \<open>Rp\<close> is computed, it returns the
  identity matrix if \<open>Rp\<close> contains a NaN and \<open>Rp\<close> (as a \<^verbatim>\<open>mat4\<close>) otherwise; when the
  first condition is true it returns \<^verbatim>\<open>mat4(1)\<close> or \<^verbatim>\<open>mat4(-1)\<close>. For a finite vector and
  its exact negation it returns the identity matrix.
\<close>

theorem rotationMatrix_nan_free:
  "\<not> has_nan_m4 (rotationMatrix u v) \<and>
   (\<not> rotationMatrix_guard u v \<longrightarrow>
      rotationMatrix u v =
        (if has_nan_m3 (rotationMatrix_Rp u v) then mat4_diag (Fin 1)
         else mat4_of_mat3 (rotationMatrix_Rp u v))) \<and>
   (rotationMatrix_guard u v \<longrightarrow>
      rotationMatrix u v = mat4_diag (Fin 1) \<or> rotationMatrix u v = mat4_diag (Fin (- 1))) \<and>
   rotationMatrix (fin3 a) (fin3 (scale_v3 (- 1) a)) = mat4_diag (Fin 1)"
  using rotationMatrix_no_nan [of u v] rotationMatrix_negated [of a]
  by (simp add: rotationMatrix_parts)

theorem rotationMatrix_nan_free_witness:
  "\<not> rotationMatrix_guard (Vec3 (Fin 1) (Fin 0) (Fin 0)) (Vec3 (Fin (- 1)) (Fin 0) (Fin 0)) \<and>
   has_nan_m3 (rotationMatrix_Rp (Vec3 (Fin 1) (Fin 0) (Fin 0)) (Vec3 (Fin (- 1)) (Fin 0) (Fin 0))) \<and>
   rotationMatrix (Vec3 (Fin 1) (Fin 0) (Fin 0)) (Vec3 (Fin (- 1)) (Fin 0) (Fin 0)) = mat4_diag (Fin 1) \<and>
   \<not> has_nan_m4 (rotationMatrix (Vec3 (Fin 1) (Fin 0) (Fin 0)) (Vec3 (Fin (- 1)) (Fin 0) (Fin 0)))"
proof -
  let ?u = "Vec3 (Fin 1) (Fin 0) (Fin 0)" and ?v = "Vec3 (Fin (- 1)) (Fin 0) (Fin 0)"
  have c: "cross ?u ?v = Vec3 (Fin 0) (Fin 0) (Fin 0)"
    by (simp add: cross_def)
  have g: "\<not> rotationMatrix_guard ?u ?v"
    by (simp add: rotationMatrix_guard_def c length_v3_zero)
  have n: "has_nan_m3 (rotationMatrix_Rp ?u ?v)"
    using c by (rule Rp_zero_cross)
  from rotationMatrix_nan_free [of ?u ?v "Vec3 1 0 0"] g n show ?thesis
    by (simp add: no_nan_diag)
qed

subsection \<open>The first condition of rotationMatrix\<close>









subsection \<open>Vectors at an obtuse angle\<close>








section \<open>The distance field of an upright cylinder, and rays along it\<close>

lemma normalize_y_literal:
  "normalize_v3 (Vec3 (Fin 0) (Fin 1) (Fin 0)) = Vec3 (Fin 0) (Fin 1) (Fin 0)"
  by (simp add: normalize_v3_def length_v3_def dot_def div_v3_def)

lemma rotationMatrix_y_axis:
  "rotationMatrix (Vec3 (Fin 0) (Fin 1) (Fin 0)) (Vec3 (Fin 0) (Fin 1) (Fin 0)) = mat4_diag (Fin 1)"
  using rotationMatrix_same_aux [of "Vec3 0 1 0"] by simp

lemma map_sdf_axis_aligned:
  assumes "directionVSOutput env = Vec3 (Fin 0) (Fin 1) (Fin 0)"
    and "centerWCVSOutput env = Vec3 (Fin 0) (Fin 0) (Fin 0)"
  shows "map_sdf env (Vec3 (Fin x) (Fin y) (Fin z)) =
           sdCylinder (Vec3 (Fin x) (Fin y) (Fin z))
             (radiusVSOutput env) (heightVSOutput env / Fin 2)"
  by (simp add: map_sdf_def assms normalize_y_literal rotationMatrix_y_axis Let_def sub_v3_def
      vec4_of_def mat4_identity_apply xyz_def minus_Fin)

lemma in_range_square: "\<bar>x\<bar> \<le> 1000 \<Longrightarrow> in_range (x * x)"
proof -
  assume "\<bar>x\<bar> \<le> 1000"
  then have "\<bar>x\<bar> * \<bar>x\<bar> \<le> 1000 * 1000" by (intro mult_mono) simp_all
  then have "\<bar>x * x\<bar> \<le> 2 ^ 100" by (simp add: abs_mult)
  then show ?thesis by (rule in_range_small)
qed

lemma length_v2_axis:
  assumes "\<bar>x\<bar> \<le> 1000"
  shows "length_v2 (Vec2 (Fin x) (Fin 0)) = Fin \<bar>x\<bar>"
  using in_range_square [OF assms] by (simp add: length_v2_def not_less)

lemma sdCylinder_beside:
  assumes "r \<le> \<bar>x\<bar>" and "\<bar>y\<bar> \<le> h" and "0 \<le> r" and "\<bar>x\<bar> \<le> 1000" and "h \<le> 1000"
  shows "sdCylinder (Vec3 (Fin x) (Fin y) (Fin 0)) (Fin r) (Fin h) = Fin (\<bar>x\<bar> - r)"
proof -
  have dx: "abs_f (length_v2 (Vec2 (Fin x) (Fin 0))) - Fin r = Fin (\<bar>x\<bar> - r)"
    using assms by (simp add: length_v2_axis minus_Fin in_range_small)
  have dy: "Fin \<bar>y\<bar> - Fin h = Fin (\<bar>y\<bar> - h)"
    using assms by (simp add: minus_Fin in_range_small)
  have "\<bar>\<bar>x\<bar> - r\<bar> \<le> 1000" using assms by simp
  then have l: "length_v2 (Vec2 (Fin (\<bar>x\<bar> - r)) (Fin 0)) = Fin \<bar>\<bar>x\<bar> - r\<bar>"
    by (rule length_v2_axis)
  have m: "max (\<bar>x\<bar> - r) (\<bar>y\<bar> - h) = \<bar>x\<bar> - r" "max (\<bar>x\<bar> - r) 0 = \<bar>x\<bar> - r"
    "max (\<bar>y\<bar> - h) 0 = 0" "min (\<bar>x\<bar> - r) 0 = 0"
    using assms by simp_all
  show ?thesis
    using assms(1) by (simp add: sdCylinder_def Let_def dx dy m l)
qed

lemma map_sdf_env0_surface: "map_sdf env0 (Vec3 (Fin (1/2)) (Fin 0) (Fin 0)) = Fin 0"
proof -
  have "map_sdf env0 (Vec3 (Fin (1/2)) (Fin 0) (Fin 0)) =
          sdCylinder (Vec3 (Fin (1/2)) (Fin 0) (Fin 0)) (Fin (1/2)) (Fin (1/2))"
    using map_sdf_axis_aligned [of env0 "1/2" 0 0] by (simp add: env0_def in_range_small)
  also have "\<dots> = Fin (\<bar>1/2\<bar> - 1/2)"
    by (rule sdCylinder_beside) simp_all
  finally show ?thesis by simp
qed

lemma steps_taken_stop_first:
  assumes "stops_at env ro rd 0"
  shows "steps_taken env ro rd = 1"
proof -
  from assms have "\<not> Suc 0 < steps_taken env ro rd"
    using steps_taken_first by blast
  then show ?thesis using steps_taken_bounds [of env ro rd] by simp
qed

lemma env0_first_step:
  "field_at env0 (Vec3 (Fin (1/2)) (Fin 0) (Fin 0)) (Vec3 (Fin (- 1)) (Fin 0) (Fin 0)) 0 = Fin 0"
  "stops_at env0 (Vec3 (Fin (1/2)) (Fin 0) (Fin 0)) (Vec3 (Fin (- 1)) (Fin 0) (Fin 0)) 0"
  "acc_dist env0 (Vec3 (Fin (1/2)) (Fin 0) (Fin 0)) (Vec3 (Fin (- 1)) (Fin 0) (Fin 0)) (Suc 0) = Fin 0"
proof -
  let ?ro = "Vec3 (Fin (1/2)) (Fin 0) (Fin 0)" and ?rd = "Vec3 (Fin (- 1)) (Fin 0) (Fin 0)"
  have pos: "add_v3 ?ro (scale_v3 (Fin 0) ?rd) = ?ro"
    by (simp add: add_v3_def scale_v3_def)
  show f: "field_at env0 ?ro ?rd 0 = Fin 0"
    by (simp add: field_at_def pos map_sdf_env0_surface)
  then show "stops_at env0 ?ro ?rd 0" by (simp add: stops_at_def)
  show "acc_dist env0 ?ro ?rd (Suc 0) = Fin 0"
    by (simp add: pos map_sdf_env0_surface)
qed

lemma castRay_env0:
  "castRay env0 (Vec3 (Fin (1/2)) (Fin 0) (Fin 0)) (Vec3 (Fin (- 1)) (Fin 0) (Fin 0)) = Fin 0"
  by (simp add: castRay_eq_sphere_trace sphere_trace_def steps_taken_stop_first env0_first_step
      del: acc_dist.simps)

theorem castRay_sphere_tracing_witness:
  "castRay env0 (Vec3 (Fin (1/2)) (Fin 0) (Fin 0)) (Vec3 (Fin (- 1)) (Fin 0) (Fin 0)) = Fin 0 \<and>
   steps_taken env0 (Vec3 (Fin (1/2)) (Fin 0) (Fin 0)) (Vec3 (Fin (- 1)) (Fin 0) (Fin 0)) = 1 \<and>
   stops_at env0 (Vec3 (Fin (1/2)) (Fin 0) (Fin 0)) (Vec3 (Fin (- 1)) (Fin 0) (Fin 0)) 0"
  using castRay_sphere_tracing [of env0 "Vec3 (Fin (1/2)) (Fin 0) (Fin 0)" "Vec3 (Fin (- 1)) (Fin 0) (Fin 0)"]
  by (simp add: steps_taken_stop_first env0_first_step del: acc_dist.simps)

lemma Fin_le_not_less: "Fin a \<le> x \<Longrightarrow> \<not> x < Fin a"
  by (cases x) (auto simp: less_eq_glfloat_def)

text \<open>
  C6 (as amended). When the distance field is at least 0.001 at every position
  \<open>castRay\<close> visits, \<open>castRay\<close> takes at most 4000 steps and returns either a distance
  that exceeds 20 (no hit) or, having used all 4000 steps, the distance accumulated by
  them, which may be below 20.
\<close>

theorem castRay_no_hit:
  assumes "\<forall>k<steps_taken env ro rd. Fin 0.001 \<le> field_at env ro rd k"
  shows "steps_taken env ro rd \<le> 4000 \<and>
         castRay env ro rd = acc_dist env ro rd (steps_taken env ro rd) \<and>
         (Fin 20 < castRay env ro rd \<or> steps_taken env ro rd = 4000)"
proof -
  let ?n = "steps_taken env ro rd"
  have res: "castRay env ro rd = acc_dist env ro rd ?n"
    by (simp add: castRay_eq_sphere_trace sphere_trace_def)
  have bounds: "0 < ?n" "?n \<le> 4000" using steps_taken_bounds [of env ro rd] by simp_all
  have "Fin 20 < castRay env ro rd \<or> ?n = 4000"
  proof (cases "?n < 4000")
    case True
    then have "stops_at env ro rd (?n - 1)" by (rule steps_taken_early)
    moreover have "\<not> field_at env ro rd (?n - 1) < Fin (1/1000)"
      using assms bounds by (intro Fin_le_not_less) simp
    ultimately have "Fin 20 < acc_dist env ro rd (Suc (?n - 1))"
      by (simp add: stops_at_def)
    with bounds res show ?thesis by simp
  next
    case False
    with bounds show ?thesis by simp
  qed
  with res bounds show ?thesis by simp
qed

lemma map_sdf_env_tall:
  assumes "\<bar>y\<bar> \<le> 50"
  shows "map_sdf env_tall (Vec3 (Fin (257/512)) (Fin y) (Fin 0)) = Fin (1/512)"
proof -
  have "map_sdf env_tall (Vec3 (Fin (257/512)) (Fin y) (Fin 0)) =
          sdCylinder (Vec3 (Fin (257/512)) (Fin y) (Fin 0)) (Fin (1/2)) (Fin 50)"
    using map_sdf_axis_aligned [of env_tall "257/512" y 0]
    by (simp add: env_tall_def env0_def in_range_small)
  also have "\<dots> = Fin (\<bar>257/512\<bar> - 1/2)"
    using assms by (intro sdCylinder_beside) simp_all
  finally show ?thesis by simp
qed

lemma pos_env_tall:
  "add_v3 ro_beside (scale_v3 (Fin t) rd_up) = Vec3 (Fin (257/512)) (Fin t) (Fin 0)"
  by (simp add: add_v3_def scale_v3_def ro_beside_def rd_up_def)

lemma acc_dist_env_tall:
  "k \<le> 4000 \<Longrightarrow> acc_dist env_tall ro_beside rd_up k = Fin (real k / 512)"
proof (induction k)
  case 0
  show ?case by simp
next
  case (Suc k)
  then have IH: "acc_dist env_tall ro_beside rd_up k = Fin (real k / 512)" and k: "k \<le> 4000"
    by simp_all
  have "\<bar>real k / 512\<bar> \<le> 50" using k by simp
  then have m: "map_sdf env_tall (Vec3 (Fin (257/512)) (Fin (real k / 512)) (Fin 0)) = Fin (1/512)"
    by (rule map_sdf_env_tall)
  have "\<bar>real k / 512 + 1 / 512\<bar> \<le> 2 ^ 100" using k by simp
  then have "in_range (real k / 512 + 1 / 512)" by (rule in_range_small)
  then have "Fin (real k / 512) + Fin (1/512) = Fin (real (Suc k) / 512)"
    by (simp add: add_divide_distrib)
  then show ?case by (simp only: acc_dist.simps IH pos_env_tall m)
qed

lemma field_at_env_tall:
  assumes "k \<le> 4000"
  shows "field_at env_tall ro_beside rd_up k = Fin (1/512)"
proof -
  have "\<bar>real k / 512\<bar> \<le> 50" using assms by simp
  then have "map_sdf env_tall (Vec3 (Fin (257/512)) (Fin (real k / 512)) (Fin 0)) = Fin (1/512)"
    by (rule map_sdf_env_tall)
  then show ?thesis by (simp only: field_at_def acc_dist_env_tall [OF assms] pos_env_tall)
qed

lemma not_stops_env_tall:
  assumes "k < 4000"
  shows "\<not> stops_at env_tall ro_beside rd_up k"
proof -
  have "acc_dist env_tall ro_beside rd_up (Suc k) = Fin (real (Suc k) / 512)"
    using assms by (intro acc_dist_env_tall) simp
  moreover have "real (Suc k) / 512 \<le> 20" using assms by simp
  moreover have "field_at env_tall ro_beside rd_up k = Fin (1/512)"
    using assms by (intro field_at_env_tall) simp
  ultimately show ?thesis by (simp add: stops_at_def del: acc_dist.simps of_nat_Suc)
qed

lemma steps_taken_env_tall: "steps_taken env_tall ro_beside rd_up = 4000"
proof -
  have "find (stops_at env_tall ro_beside rd_up) [0..<4000] = None"
    unfolding find_None_iff set_upt using not_stops_env_tall by auto
  then show ?thesis by (simp only: steps_taken_def option.case)
qed

lemma castRay_env_tall: "castRay env_tall ro_beside rd_up = Fin (125/16)"
  by (simp add: castRay_eq_sphere_trace sphere_trace_def steps_taken_env_tall acc_dist_env_tall)

lemma env_tall_never_below:
  "\<forall>k<steps_taken env_tall ro_beside rd_up. Fin 0.001 \<le> field_at env_tall ro_beside rd_up k"
  by (simp add: steps_taken_env_tall field_at_env_tall)

text \<open>
  The claim as stated (a field that never drops below the threshold gives a distance of
  at least 20) fails beside a cylinder of height 100: along the ray at the distance
  \<open>1/512\<close> from its side every step advances by \<open>1/512\<close>, and the 4000 steps end at the
  distance \<open>4000/512 = 7.8125\<close>.
\<close>

theorem castRay_no_hit_counterexample:
  "\<not> (\<forall>env ro rd. (\<forall>k<steps_taken env ro rd. Fin 0.001 \<le> field_at env ro rd k)
         \<longrightarrow> Fin 20 \<le> castRay env ro rd)"
proof
  assume "\<forall>env ro rd. (\<forall>k<steps_taken env ro rd. Fin 0.001 \<le> field_at env ro rd k)
            \<longrightarrow> Fin 20 \<le> castRay env ro rd"
  with env_tall_never_below have "Fin 20 \<le> castRay env_tall ro_beside rd_up" by blast
  then show False by (simp add: castRay_env_tall)
qed

theorem castRay_no_hit_witness:
  "steps_taken env_tall ro_beside rd_up = 4000 \<and>
   castRay env_tall ro_beside rd_up = Fin (125/16) \<and>
   \<not> Fin 20 < castRay env_tall ro_beside rd_up \<and>
   field_at env_tall ro_beside rd_up 0 = Fin (1/512)"
proof -
  have "\<not> Fin 20 < castRay env_tall ro_beside rd_up"
    by (simp add: castRay_env_tall)
  with castRay_no_hit [OF env_tall_never_below]
  have "steps_taken env_tall ro_beside rd_up = 4000"
    by blast
  moreover have "field_at env_tall ro_beside rd_up 0 = Fin (1/512)"
    by (simp add: field_at_env_tall)
  ultimately show ?thesis by (simp add: castRay_env_tall)
qed

section \<open>The fragment stage\<close>

lemma frag_impl_parts:
  "sdf_cylinder_frag_impl env =
     (if castRay env (xyz (frag_ro env)) (frag_rd env) < Fin 20 then
        (let position = add_v3 (xyz (frag_ro env))
                          (scale_v3 (castRay env (xyz (frag_ro env)) (frag_rd env)) (frag_rd env));
             ro0 = mul_v4_m4 (neg_v4 (m4c3 (MCVCMatrix env))) (MCVCMatrix env);
             ld = normalize_v3 (sub_v3 (xyz ro0) (xyz (vertexMCVSOutput env)));
             norm = calculateNormal env position;
             df = max_f (Fin 0) (dot ld norm);
             diffuse = mul_v3 (scale_v3 df (diffuseColor env)) (lightColor0 env);
             sf = pow_f df (specularPower env);
             specular = mul_v3 (scale_v3 sf (specularColor env)) (lightColor0 env)
         in FragOutput0 (vec4_of (add_v3 (add_v3 (ambientColor env) diffuse) specular)
                                 (opacity env)))
      else Discard)"
  by (simp add: sdf_cylinder_frag_impl_def frag_ro_def frag_rd_def Let_def)

text \<open>
  C7. The fragment stage writes a colour to \<^verbatim>\<open>fragOutput0\<close> if and only if \<open>castRay\<close>,
  on the ray of the fragment, returns a distance below 20; otherwise it discards the
  fragment.
\<close>

theorem frag_writes_iff_hit:
  "((\<exists>c. sdf_cylinder_frag_impl env = FragOutput0 c)
      = (castRay env (xyz (frag_ro env)) (frag_rd env) < Fin 20)) \<and>
   ((sdf_cylinder_frag_impl env = Discard)
      = (\<not> castRay env (xyz (frag_ro env)) (frag_rd env) < Fin 20))"
  by (simp add: frag_impl_parts Let_def)

lemma normalize_neg_x:
  "x < 0 \<Longrightarrow> \<bar>x\<bar> \<le> 1000 \<Longrightarrow>
     normalize_v3 (Vec3 (Fin x) (Fin 0) (Fin 0)) = Vec3 (Fin (- 1)) (Fin 0) (Fin 0)"
  using in_range_square [of x]
  by (simp add: normalize_v3_def length_v3_def dot_def div_v3_def in_range_small)

lemma frag_ray_env0:
  "xyz (frag_ro env0) = Vec3 (Fin (1/2)) (Fin 0) (Fin 0)"
  "frag_rd env0 = Vec3 (Fin (- 1)) (Fin 0) (Fin 0)"
proof -
  have ro: "mul_v4_m4 (neg_v4 (m4c3 (MCVCMatrix env0))) (MCVCMatrix env0)
              = Vec4 (Fin 5) (Fin 0) (Fin 0) (Fin (- 26))"
    by (simp add: env0_def mul_v4_m4_def neg_v4_def dot4_def in_range_small)
  have pt: "vertexMCVSOutput env0 = Vec4 (Fin (1/2)) (Fin 0) (Fin 0) (Fin 1)"
    by (simp add: env0_def)
  show "xyz (frag_ro env0) = Vec3 (Fin (1/2)) (Fin 0) (Fin 0)"
    by (simp add: frag_ro_def Let_def ro pt xyz_def add_v4_def vec4_of_def sub_v3_def minus_Fin
        in_range_small)
  have "sub_v3 (xyz (Vec4 (Fin (1/2)) (Fin 0) (Fin 0) (Fin 1)))
               (xyz (Vec4 (Fin 5) (Fin 0) (Fin 0) (Fin (- 26))))
          = Vec3 (Fin (- 9/2)) (Fin 0) (Fin 0)"
    by (simp add: sub_v3_def xyz_def minus_Fin in_range_small)
  then show "frag_rd env0 = Vec3 (Fin (- 1)) (Fin 0) (Fin 0)"
    by (simp add: frag_rd_def Let_def ro pt normalize_neg_x)
qed

theorem frag_writes_iff_hit_witness:
  "castRay env0 (xyz (frag_ro env0)) (frag_rd env0) = Fin 0 \<and>
   (\<exists>c. sdf_cylinder_frag_impl env0 = FragOutput0 c) \<and>
   sdf_cylinder_frag_impl env0 \<noteq> Discard"
proof -
  have t: "castRay env0 (xyz (frag_ro env0)) (frag_rd env0) = Fin 0"
    by (simp only: frag_ray_env0 castRay_env0)
  then have "castRay env0 (xyz (frag_ro env0)) (frag_rd env0) < Fin 20" by simp
  with frag_writes_iff_hit [of env0] have "\<exists>c. sdf_cylinder_frag_impl env0 = FragOutput0 c"
    by blast
  with t show ?thesis by auto
qed

end
